theory Spec2Isabelle
  imports Complex_Main
begin

section \<open>The demo checkout: JavaScript values, requests and responses\<close>

text \<open>
  The values that cross the HTTP boundary of the demo are JSON values. A JavaScript
  number is a double: it is modelled by its numeric value when it is finite (the two
  zeros are both \<open>Finite 0\<close>), and by one constructor each for the three values that
  are not finite.
\<close>

datatype js_number = Finite rat | PosInfinity | NegInfinity | NaN

text \<open>
  An object is the list of its own enumerable properties, in the order in which
  \<^verbatim>\<open>Object.keys\<close> lists them. Strings are lists of 8-bit characters; the model
  counts one character for each code unit.
\<close>

datatype json =
    JNull
  | JBool bool
  | JNumber js_number
  | JString string
  | JArray "json list"
  | JObject "(string \<times> json) list"

text \<open>
  What the code throws: \<^verbatim>\<open>request.json()\<close> and \<^verbatim>\<open>res.json()\<close> reject
  with a SyntaxError on a body that is not JSON, reading a property of \<^verbatim>\<open>null\<close>
  is a TypeError, and the clients throw \<^verbatim>\<open>new Error(arg)\<close>, kept with its argument.
\<close>

datatype error = SyntaxError | TypeError | Error json

text \<open>
  The text of a body is modelled by what parsing it gives: \<open>None\<close> for a text that is
  not JSON, \<open>Some v\<close> for a text that denotes \<open>v\<close>.
\<close>

record request =
  http_method :: string
  headers :: "(string \<times> string) list"
  body :: "json option"

record response =
  status :: nat
  content :: "json option"

type_synonym fetch = "string \<Rightarrow> request \<Rightarrow> error + response"

subsection \<open>Built-in operations the code calls\<close>

text \<open>
  \<^verbatim>\<open>JSON.stringify\<close> writes a number that is not finite as \<^verbatim>\<open>null\<close>; every
  other value of the model is written as it is. The result is the body text, given by
  the value it parses to.
\<close>

primrec finite_numbers :: "json \<Rightarrow> json" where
  "finite_numbers JNull = JNull"
| "finite_numbers (JBool b) = JBool b"
| "finite_numbers (JNumber n) = (case n of Finite q \<Rightarrow> JNumber (Finite q) | _ \<Rightarrow> JNull)"
| "finite_numbers (JString s) = JString s"
| "finite_numbers (JArray xs) = JArray (map finite_numbers xs)"
| "finite_numbers (JObject ps) = JObject (map (map_prod id finite_numbers) ps)"

definition JSON_stringify :: "json \<Rightarrow> json option" where
  "JSON_stringify v = Some (finite_numbers v)"

text \<open>The own property of a value under a key; only objects have named own properties.\<close>

fun field :: "json \<Rightarrow> string \<Rightarrow> json option" where
  "field (JObject ps) k = map_of ps k"
| "field _ k = None"

text \<open>
  The expression \<^verbatim>\<open>v.k\<close>, for a key that no built-in prototype defines (the code
  reads \<^verbatim>\<open>currency\<close> and \<^verbatim>\<open>message\<close>): a TypeError on \<^verbatim>\<open>null\<close>, the own
  property otherwise, \<open>None\<close> standing for \<^verbatim>\<open>undefined\<close>.
\<close>

definition get_prop :: "json \<Rightarrow> string \<Rightarrow> error + json option" where
  "get_prop v k = (if v = JNull then Inl TypeError else Inr (field v k))"

text \<open>JavaScript's conversion to a boolean, as \<^verbatim>\<open>!\<close> and \<^verbatim>\<open>||\<close> apply it.\<close>

fun truthy :: "json option \<Rightarrow> bool" where
  "truthy None = False"
| "truthy (Some JNull) = False"
| "truthy (Some (JBool b)) = b"
| "truthy (Some (JNumber n)) = (n \<noteq> Finite 0 \<and> n \<noteq> NaN)"
| "truthy (Some (JString s)) = (s \<noteq> [])"
| "truthy (Some (JArray xs)) = True"
| "truthy (Some (JObject ps)) = True"

function show_nat :: "nat \<Rightarrow> string" where
  "show_nat n =
     (if n < 10 then [''0123456789'' ! n]
      else show_nat (n div 10) @ [''0123456789'' ! (n mod 10)])"
  by pat_completeness auto
termination
  by (relation "measure id") auto

text \<open>
  \<^verbatim>\<open>Object.keys\<close>: the keys of an object, the indices of an array or of a string,
  nothing for a number or a boolean, a TypeError for \<^verbatim>\<open>null\<close>.
\<close>

fun Object_keys :: "json \<Rightarrow> error + string list" where
  "Object_keys JNull = Inl TypeError"
| "Object_keys (JObject ps) = Inr (map fst ps)"
| "Object_keys (JArray xs) = Inr (map show_nat [0..<length xs])"
| "Object_keys (JString s) = Inr (map show_nat [0..<length s])"
| "Object_keys (JBool b) = Inr []"
| "Object_keys (JNumber n) = Inr []"

definition substr :: "string \<Rightarrow> nat \<Rightarrow> nat \<Rightarrow> string" where
  "substr s start len = take len (drop start s)"

definition toUpperCase :: "string \<Rightarrow> string" where
  "toUpperCase s =
     map (\<lambda>c. case map_of (zip ''abcdefghijklmnopqrstuvwxyz'' ''ABCDEFGHIJKLMNOPQRSTUVWXYZ'') c of
                 None \<Rightarrow> c | Some u \<Rightarrow> u) s"

definition request_json :: "request \<Rightarrow> error + json" where
  "request_json r = (case body r of None \<Rightarrow> Inl SyntaxError | Some v \<Rightarrow> Inr v)"

definition response_json :: "response \<Rightarrow> error + json" where
  "response_json r = (case content r of None \<Rightarrow> Inl SyntaxError | Some v \<Rightarrow> Inr v)"

definition ok :: "response \<Rightarrow> bool" where
  "ok r = (200 \<le> status r \<and> status r \<le> 299)"

definition NextResponse_json :: "json \<Rightarrow> nat \<Rightarrow> response" where
  "NextResponse_json data st = \<lparr>status = st, content = JSON_stringify data\<rparr>"

subsection \<open>The handler of \<^verbatim>\<open>vercel_demo/app/api/create-order/route.ts\<close>\<close>

text \<open>
  \<open>rnd\<close> is the text of \<^verbatim>\<open>Math.random().toString(36)\<close>, which only the success
  branch reads.
\<close>

definition POST :: "string \<Rightarrow> request \<Rightarrow> error + response" where
  "POST rnd request =
     (case request_json request of
        Inl e \<Rightarrow> Inl e
      | Inr parsed \<Rightarrow>
         (case get_prop parsed ''currency'' of
            Inl e \<Rightarrow> Inl e
          | Inr currency \<Rightarrow>
             if \<not> truthy currency then
               (case Object_keys parsed of
                  Inl e \<Rightarrow> Inl e
                | Inr keys \<Rightarrow>
                   Inr (NextResponse_json
                     (JObject
                       [(''error'', JString ''BILLING_400''),
                        (''message'', JString ''Missing required field: currency. Backend validation requires 'currency' field in payment request.''),
                        (''details'', JObject
                          [(''received_fields'', JArray (map JString keys)),
                           (''required_fields'',
                              JArray [JString ''paymentIntentId'', JString ''amount'', JString ''currency'']),
                           (''missing_fields'', JArray [JString ''currency''])])])
                     400))
             else
               Inr (NextResponse_json
                 (JObject
                   [(''success'', JBool True),
                    (''order_id'', JString (''ORD-'' @ toUpperCase (substr rnd 2 9))),
                    (''message'', JString ''Order created successfully'')])
                 200)))"

subsection \<open>The three clients\<close>

text \<open>
  Each client is a function of the transport \<open>fetch\<close> it calls. The abort timer of
  \<^verbatim>\<open>demo_frontend/checkout.ts\<close> acts on the transport only: when it fires, \<open>fetch\<close>
  rejects, and the client passes the rejection on as it does any other.
\<close>

definition createOrder_init :: "string \<Rightarrow> js_number \<Rightarrow> request" where
  "createOrder_init paymentIntentId amount =
     \<lparr>http_method = ''POST'',
      headers = [(''Content-Type'', ''application/json'')],
      body = JSON_stringify (JObject
        [(''paymentIntentId'', JString paymentIntentId),
         (''amount'', JNumber amount),
         (''currency'', JString ''INR'')])\<rparr>"

definition createOrder :: "fetch \<Rightarrow> string \<Rightarrow> js_number \<Rightarrow> error + json" where
  "createOrder fetch paymentIntentId amount =
     (case fetch ''/api/create-order'' (createOrder_init paymentIntentId amount) of
        Inl e \<Rightarrow> Inl e
      | Inr res \<Rightarrow>
         if \<not> ok res then Inl (Error (JString ''Order failed''))
         else response_json res)"



text \<open>The client of \<^verbatim>\<open>unnamed/part_001\<close>, which sends no currency.\<close>

definition createOrder_part_001_init :: "string \<Rightarrow> js_number \<Rightarrow> request" where
  "createOrder_part_001_init paymentIntentId amount =
     \<lparr>http_method = ''POST'',
      headers = [(''Content-Type'', ''application/json'')],
      body = JSON_stringify (JObject
        [(''paymentIntentId'', JString paymentIntentId),
         (''amount'', JNumber amount)])\<rparr>"

definition createOrder_part_001 :: "fetch \<Rightarrow> string \<Rightarrow> js_number \<Rightarrow> error + json" where
  "createOrder_part_001 fetch paymentIntentId amount =
     (case fetch ''/api/create-order'' (createOrder_part_001_init paymentIntentId amount) of
        Inl e \<Rightarrow> Inl e
      | Inr res \<Rightarrow>
         if \<not> ok res then
           (case response_json res of
              Inl e \<Rightarrow> Inl e
            | Inr error \<Rightarrow>
               (case get_prop error ''message'' of
                  Inl e \<Rightarrow> Inl e
                | Inr message \<Rightarrow>
                   Inl (Error (if truthy message then the message else JString ''Order failed''))))
         else response_json res)"

text \<open>
  A client composed with the handler: the request reaches \<open>POST\<close> as the client built
  it, and what \<open>POST\<close> returns or throws comes back as it is.
\<close>

definition fetch_POST :: "string \<Rightarrow> fetch" where
  "fetch_POST rnd url init = POST rnd init"

subsection \<open>Reading a response\<close>

text \<open>The value found by following a path of keys into a JSON value.\<close>

fun json_at :: "string list \<Rightarrow> json \<Rightarrow> json option" where
  "json_at [] v = Some v"
| "json_at (k # ks) v = (case field v k of None \<Rightarrow> None | Some w \<Rightarrow> json_at ks w)"

subsection \<open>The shapes of a response\<close>

text \<open>
  The body of a failure as the handler builds it: the error code under the key
  \<^verbatim>\<open>error\<close>, a message, and the missing fields among the details.
\<close>

definition failure_body :: "json \<Rightarrow> bool" where
  "failure_body b =
     (json_at [''error''] b \<noteq> None \<and> json_at [''message''] b \<noteq> None \<and>
      json_at [''details'', ''missing_fields''] b \<noteq> None)"

definition success_body :: "json \<Rightarrow> bool" where
  "success_body b = (json_at [''order_id''] b \<noteq> None)"

text \<open>
  The contract of the simulated HTTP boundary in the words of the interface description:
  a response is a structured failure with \<^verbatim>\<open>error_code\<close>, \<^verbatim>\<open>message\<close> and
  \<^verbatim>\<open>details.missing_fields\<close>, or a success with \<^verbatim>\<open>order_id\<close>.
\<close>

definition described_failure_body :: "json \<Rightarrow> bool" where
  "described_failure_body b =
     (json_at [''error_code''] b \<noteq> None \<and> json_at [''message''] b \<noteq> None \<and>
      json_at [''details'', ''missing_fields''] b \<noteq> None)"

definition described_response :: "error + response \<Rightarrow> bool" where
  "described_response out =
     (case out of
        Inl e \<Rightarrow> False
      | Inr res \<Rightarrow>
         (case content res of
            None \<Rightarrow> False
          | Some b \<Rightarrow> described_failure_body b \<or> success_body b))"

section \<open>The triage core\<close>

text \<open>
  The sources of the triage core (failure injection, the agents, the orchestrator and the
  RCA synthesizer) are not among the files of the repository at hand. The definitions of
  this section follow the design document of the core; each one says which part of it
  it stands for.
\<close>

subsection \<open>Data model\<close>

text \<open>Modelled from the spec: the FailureRule of the failure policy; the kind is kept by
  its name, the probability is a rational number.\<close>

record FailureRule =
  rule_service :: string
  rule_kind :: string
  rule_error_code :: string
  probability :: rat
  rule_payload :: json

text \<open>Modelled from the spec: the status of a Ticket.\<close>

datatype ticket_status = TICKET_OPEN | IN_TRIAGE | RESOLVED

text \<open>Modelled from the spec: the Ticket that the alert engine opens.\<close>

record Ticket =
  ticket_id :: nat
  service :: string
  error_code :: string
  severity :: string
  opened_at :: nat
  ticket_status :: ticket_status
  raw_payload :: json

text \<open>Modelled from the spec: the roles of the agents.\<close>

datatype role = Chair | Main | SRE | Billing | Ordering | Frontend

text \<open>Modelled from the spec: a knowledge entry of a Runbook, a guidance text with an
  optional fix template.\<close>

record guidance =
  guidance_text :: string
  fix_template :: "string option"

text \<open>Modelled from the spec: the Runbook of one agent role.\<close>

record Runbook =
  runbook_role :: role
  knowledge :: "string \<rightharpoonup> guidance"
  escalation_rules :: "string list"
  response_templates :: "(string \<times> string) list"

text \<open>Modelled from the spec: the Finding of one agent invocation.\<close>

record Finding =
  agent_role :: role
  finding_ticket :: nat
  summary :: string
  confidence :: rat
  suggested_action :: "string option"
  timestamp :: nat

text \<open>Modelled from the spec: the kinds of an Action.\<close>

datatype action_kind = PATCH | DEPLOY | NONE

text \<open>Modelled from the spec: the Action that the Frontend role records.\<close>

record Action =
  action_kind :: action_kind
  target :: string
  diff_or_description :: string
  applied :: bool

text \<open>Modelled from the spec: the states of a TriageCall, with the ABORTED variant of
  the terminal state.\<close>

datatype call_state = OPEN | ASSESSING | DIAGNOSING | REMEDIATING | DEPLOYED | CLOSED | ABORTED

text \<open>Modelled from the spec: the TriageCall that the orchestrator owns.\<close>

record TriageCall =
  call_ticket :: nat
  state :: call_state
  agent_sequence :: "role list"
  findings :: "Finding list"
  actions :: "Action list"
  call_opened_at :: nat
  closed_at :: "nat option"

text \<open>Modelled from the spec: the RCAReport.\<close>

record RCAReport =
  report_ticket :: nat
  root_cause :: string
  contributing_findings :: "Finding list"
  remediation_summary :: string
  generated_at :: "nat option"

subsection \<open>FailureInjector\<close>

text \<open>Modelled from the spec: the random source of the FailureInjector, as the sequence
  of the uniform values it will give; drawing takes the value at position 0 and leaves
  the rest.\<close>

type_synonym random_source = "nat \<Rightarrow> rat"

text \<open>Modelled from the spec: the random source after one draw.\<close>

definition rest :: "random_source \<Rightarrow> random_source" where
  "rest src = (\<lambda>n. src (Suc n))"

text \<open>Modelled from the spec: the sampling loop of FailureInjector.sample. Each rule of
  the service draws one value of the source and triggers when the value is below its
  probability; the rules that trigger are collected in list order.\<close>

fun triggered :: "FailureRule list \<Rightarrow> string \<Rightarrow> random_source \<Rightarrow> FailureRule list \<times> random_source" where
  "triggered [] svc src = ([], src)"
| "triggered (r # rs) svc src =
     (if rule_service r = svc then
        (case triggered rs svc (rest src) of
           (ts, src') \<Rightarrow> (if src 0 < probability r then r # ts else ts, src'))
      else triggered rs svc src)"

text \<open>Modelled from the spec: FailureInjector.sample, which returns the first rule that
  triggered, or none, and the random source as the draws left it.\<close>

definition sample :: "FailureRule list \<Rightarrow> string \<Rightarrow> random_source \<Rightarrow> FailureRule option \<times> random_source" where
  "sample policy svc src =
     (case triggered policy svc src of
        (ts, src') \<Rightarrow> ((case ts of [] \<Rightarrow> None | r # _ \<Rightarrow> Some r), src'))"

subsection \<open>RCA Synthesizer\<close>

text \<open>Modelled from the spec: the choice of the highest-confidence Finding among those
  that carry a suggested action; of two with the same confidence the earlier one is
  kept.\<close>

fun best_finding :: "Finding list \<Rightarrow> Finding option" where
  "best_finding [] = None"
| "best_finding (f # fs) =
     (case best_finding fs of
        None \<Rightarrow> (if suggested_action f = None then None else Some f)
      | Some g \<Rightarrow>
         (if suggested_action f \<noteq> None \<and> confidence g \<le> confidence f then Some f
          else Some g))"

text \<open>Modelled from the spec: RCA Synthesizer.synthesize. The wording of the summary of
  a call that found a root cause, which the design leaves open, is the parameter
  \<open>describe\<close>; the report lists the Findings of the call in their order and is dated
  with the closing time of the call.\<close>

definition synthesize :: "(Action list \<Rightarrow> string) \<Rightarrow> TriageCall \<Rightarrow> RCAReport" where
  "synthesize describe c =
     \<lparr>report_ticket = call_ticket c,
      root_cause =
        (case best_finding (findings c) of
           None \<Rightarrow> ''undetermined''
         | Some f \<Rightarrow> (case suggested_action f of None \<Rightarrow> ''undetermined'' | Some a \<Rightarrow> a)),
      contributing_findings = findings c,
      remediation_summary =
        (case best_finding (findings c) of
           None \<Rightarrow> ''unresolved''
         | Some f \<Rightarrow> describe (actions c)),
      generated_at = closed_at c\<rparr>"

subsection \<open>Agents\<close>

text \<open>Modelled from the spec: the place in the code that FrontendAgent.locate_defect
  returns.\<close>

record CodeLocation =
  location_path :: string
  defect_pattern :: string
  patch_template :: string

text \<open>Modelled from the spec: the configuration that the agents and the orchestrator
  read: the Runbook of each role, the services a role owns, the domain agents relevant
  to a service, the known code-bug patterns of the Frontend role, the test whether a
  suggested action implicates a frontend code path, the confidence a role gives to a
  Finding that a knowledge entry backs, the agent-turn budget and the wording of the
  remediation summary.\<close>

record config =
  runbooks :: "role \<Rightarrow> Runbook"
  owns :: "role \<Rightarrow> string \<Rightarrow> bool"
  relevant_agents :: "string \<Rightarrow> role list"
  code_patterns :: "string \<rightharpoonup> CodeLocation"
  implicates_frontend :: "string \<Rightarrow> bool"
  backed_confidence :: "role \<Rightarrow> rat"
  turn_budget :: nat
  describe_actions :: "Action list \<Rightarrow> string"

text \<open>Modelled from the spec: the minimal generic Finding an agent degrades to.\<close>

definition generic_finding :: "role \<Rightarrow> Ticket \<Rightarrow> string \<Rightarrow> nat \<Rightarrow> Finding" where
  "generic_finding r t text now =
     \<lparr>agent_role = r, finding_ticket = ticket_id t, summary = text, confidence = 0,
      suggested_action = None, timestamp = now\<rparr>"

text \<open>Modelled from the spec: Agent.analyze, the same for every Finding-producing role up
  to the Runbook it consults and the services it owns. A Ticket of a service the role
  does not own, and an error code without a knowledge entry, give the generic Finding;
  a knowledge entry gives its guidance, with its fix template as the suggested action.\<close>

definition analyze :: "config \<Rightarrow> role \<Rightarrow> Ticket \<Rightarrow> Finding list \<Rightarrow> nat \<Rightarrow> Finding" where
  "analyze cfg r t findings_so_far now =
     (if \<not> owns cfg r (service t) then generic_finding r t ''no matching guidance'' now
      else
        (case knowledge (runbooks cfg r) (error_code t) of
           None \<Rightarrow> generic_finding r t ''unknown error'' now
         | Some g \<Rightarrow>
            \<lparr>agent_role = r, finding_ticket = ticket_id t, summary = guidance_text g,
             confidence = backed_confidence cfg r, suggested_action = fix_template g,
             timestamp = now\<rparr>))"

text \<open>Modelled from the spec: FrontendAgent.locate_defect, a lookup of the error code
  among the known code-bug patterns.\<close>

definition locate_defect :: "config \<Rightarrow> string \<Rightarrow> CodeLocation option" where
  "locate_defect cfg code = code_patterns cfg code"

text \<open>Modelled from the spec: FrontendAgent.generate_patch, which fills the template of
  the pattern into an applied PATCH Action.\<close>

definition generate_patch :: "CodeLocation \<Rightarrow> Action" where
  "generate_patch loc =
     \<lparr>action_kind = PATCH, target = location_path loc,
      diff_or_description = patch_template loc, applied = True\<rparr>"

subsection \<open>TriageOrchestrator\<close>

text \<open>Modelled from the spec: the three types of event, each with its payload.\<close>

datatype event_payload =
    StateTransition call_state call_state
  | FindingRecorded Finding
  | ActionRecorded Action

text \<open>Modelled from the spec: an event of the EventStream, with the ticket, the time and
  the payload.\<close>

datatype event = Event nat nat event_payload

text \<open>Modelled from the spec: what the orchestrator holds during one triage: the call,
  its Ticket, the events published so far, the roles invoked so far, a logical clock
  and the report once it is synthesized.\<close>

record orchestration =
  call :: TriageCall
  ticket :: Ticket
  events :: "event list"
  invoked :: "role list"
  clock :: nat
  report :: "RCAReport option"

text \<open>Modelled from the spec: the order of the states of the call; CLOSED and its
  ABORTED variant are the last.\<close>

fun state_rank :: "call_state \<Rightarrow> nat" where
  "state_rank OPEN = 0"
| "state_rank ASSESSING = 1"
| "state_rank DIAGNOSING = 2"
| "state_rank REMEDIATING = 3"
| "state_rank DEPLOYED = 4"
| "state_rank CLOSED = 5"
| "state_rank ABORTED = 5"

text \<open>Modelled from the spec: the terminal states.\<close>

definition terminal :: "call_state \<Rightarrow> bool" where
  "terminal st = (st = CLOSED \<or> st = ABORTED)"

text \<open>Modelled from the spec: publishing one event to the EventStream.\<close>

definition publish :: "event_payload \<Rightarrow> orchestration \<Rightarrow> orchestration" where
  "publish p s =
     s\<lparr>events := events s @ [Event (call_ticket (call s)) (clock s) p],
       clock := Suc (clock s)\<rparr>"

text \<open>Modelled from the spec: a state transition, which publishes its event.\<close>

definition transition :: "call_state \<Rightarrow> orchestration \<Rightarrow> orchestration" where
  "transition st s =
     publish (StateTransition (state (call s)) st) (s\<lparr>call := (call s)\<lparr>state := st\<rparr>\<rparr>)"

text \<open>Modelled from the spec: one agent invocation by the orchestrator, which takes a
  turn of the budget and appends the Finding of the agent; without a turn left the
  agent is not invoked.\<close>

definition invoke :: "config \<Rightarrow> role \<Rightarrow> orchestration \<Rightarrow> orchestration" where
  "invoke cfg r s =
     (if length (invoked s) < turn_budget cfg then
        (let f = analyze cfg r (ticket s) (findings (call s)) (clock s) in
         publish (FindingRecorded f)
           (s\<lparr>call := (call s)\<lparr>findings := findings (call s) @ [f]\<rparr>,
              invoked := invoked s @ [r]\<rparr>))
      else s)"

text \<open>Modelled from the spec: the sequential invocation of a list of agents.\<close>

fun invoke_all :: "config \<Rightarrow> role list \<Rightarrow> orchestration \<Rightarrow> orchestration" where
  "invoke_all cfg [] s = s"
| "invoke_all cfg (r # rs) s = invoke_all cfg rs (invoke cfg r s)"

text \<open>Modelled from the spec: adding roles to the agent sequence of the call.\<close>

definition enlist :: "role list \<Rightarrow> orchestration \<Rightarrow> orchestration" where
  "enlist rs s = s\<lparr>call := (call s)\<lparr>agent_sequence := agent_sequence (call s) @ rs\<rparr>\<rparr>"

text \<open>Modelled from the spec: recording an Action of the Frontend role.\<close>

definition record_action :: "Action \<Rightarrow> orchestration \<Rightarrow> orchestration" where
  "record_action a s =
     publish (ActionRecorded a) (s\<lparr>call := (call s)\<lparr>actions := actions (call s) @ [a]\<rparr>\<rparr>)"

text \<open>Modelled from the spec: whether some Finding carries a suggested action.\<close>

definition actionable :: "Finding list \<Rightarrow> bool" where
  "actionable fs = list_ex (\<lambda>f. suggested_action f \<noteq> None) fs"

text \<open>Modelled from the spec: whether one of the suggested actions implicates a frontend
  code path.\<close>

definition frontend_implicated :: "config \<Rightarrow> Finding list \<Rightarrow> bool" where
  "frontend_implicated cfg fs =
     list_ex (\<lambda>f. case suggested_action f of None \<Rightarrow> False | Some a \<Rightarrow> implicates_frontend cfg a) fs"

text \<open>Modelled from the spec: whether an Action of kind PATCH or DEPLOY has been
  recorded.\<close>

definition remediated :: "Action list \<Rightarrow> bool" where
  "remediated as = list_ex (\<lambda>a. action_kind a = PATCH \<or> action_kind a = DEPLOY) as"

text \<open>Modelled from the spec: closing the call. The Ticket becomes RESOLVED when a PATCH
  or DEPLOY Action has been recorded and keeps its status otherwise, and the report is
  synthesized from the closed call.\<close>

definition close :: "config \<Rightarrow> orchestration \<Rightarrow> orchestration" where
  "close cfg s =
     (let s1 = transition CLOSED s;
          c = (call s1)\<lparr>closed_at := Some (clock s1)\<rparr>
      in s1\<lparr>call := c,
            ticket := (if remediated (actions c) then (ticket s1)\<lparr>ticket_status := RESOLVED\<rparr>
                       else ticket s1),
            report := Some (synthesize (describe_actions cfg) c)\<rparr>)"

text \<open>Modelled from the spec: the abort of a run by an external signal, which closes the
  call in the ABORTED variant and publishes the closing event.\<close>

definition abort_call :: "orchestration \<Rightarrow> orchestration" where
  "abort_call s =
     (let s1 = transition ABORTED s
      in s1\<lparr>call := (call s1)\<lparr>closed_at := Some (clock s1)\<rparr>\<rparr>)"

text \<open>Modelled from the spec: one step of the state machine of the TriageOrchestrator;
  \<open>abort\<close> says whether the external abort signal has arrived. A call in a terminal
  state is left as it is. Otherwise the step takes the transition of the current state:
  the Chair opens the call with the sequence Main, SRE and these are invoked; the domain
  agents relevant to the service are appended and invoked; a Finding with a suggested
  action leads to REMEDIATING, with the Frontend role invoked when a suggested action
  implicates a frontend code path; the Frontend role, when it was invoked and locates
  the defect, records the applied patch and the call is DEPLOYED; a DEPLOYED call is
  closed. A call with no actionable Finding, or with no located defect, takes the
  failure-to-resolve path and is closed as well.\<close>

definition advance :: "config \<Rightarrow> bool \<Rightarrow> orchestration \<Rightarrow> orchestration" where
  "advance cfg abort s =
     (if terminal (state (call s)) then s
      else if abort then abort_call s
      else
        (case state (call s) of
           OPEN \<Rightarrow>
            invoke_all cfg [Main, SRE]
              (transition ASSESSING (s\<lparr>call := (call s)\<lparr>agent_sequence := [Main, SRE]\<rparr>\<rparr>))
         | ASSESSING \<Rightarrow>
            (let domain = relevant_agents cfg (service (ticket s))
             in invoke_all cfg domain (transition DIAGNOSING (enlist domain s)))
         | DIAGNOSING \<Rightarrow>
            (if actionable (findings (call s)) then
               (if frontend_implicated cfg (findings (call s)) then
                  invoke cfg Frontend (transition REMEDIATING (enlist [Frontend] s))
                else transition REMEDIATING s)
             else close cfg s)
         | REMEDIATING \<Rightarrow>
            (if Frontend \<in> set (invoked s) then
               (case locate_defect cfg (error_code (ticket s)) of
                  None \<Rightarrow> close cfg s
                | Some loc \<Rightarrow> transition DEPLOYED (record_action (generate_patch loc) s))
             else close cfg s)
         | DEPLOYED \<Rightarrow> close cfg s
         | CLOSED \<Rightarrow> s
         | ABORTED \<Rightarrow> s))"

text \<open>Modelled from the spec: a run of the orchestrator, one step for each entry of the
  list, which says whether the abort signal arrived before that step.\<close>

fun run :: "config \<Rightarrow> bool list \<Rightarrow> orchestration \<Rightarrow> orchestration" where
  "run cfg [] s = s"
| "run cfg (a # as) s = run cfg as (advance cfg a s)"

text \<open>Modelled from the spec: the orchestration of a Ticket before its first step, with
  the TriageCall of the Ticket in the state OPEN.\<close>

definition open_triage :: "Ticket \<Rightarrow> nat \<Rightarrow> orchestration" where
  "open_triage t now =
     \<lparr>call = \<lparr>call_ticket = ticket_id t, state = OPEN, agent_sequence = [], findings = [],
              actions = [], call_opened_at = now, closed_at = None\<rparr>,
      ticket = t, events = [], invoked = [], clock = now, report = None\<rparr>"

subsection \<open>The billing scenario\<close>

text \<open>Modelled from the spec: the Ticket of the billing scenario of the testable
  properties, a BILLING_400 failure of the billing service with the missing field
  \<^verbatim>\<open>currency\<close>.\<close>

definition billing_ticket :: Ticket where
  "billing_ticket =
     \<lparr>ticket_id = 1, service = ''billing'', error_code = ''BILLING_400'',
      severity = ''warning'', opened_at = 0, ticket_status = TICKET_OPEN,
      raw_payload = JObject
        [(''error_code'', JString ''BILLING_400''),
         (''message'', JString ''Missing required field: currency''),
         (''details'', JObject [(''missing_fields'', JArray [JString ''currency''])])]\<rparr>"

text \<open>Modelled from the spec: a configuration for the billing scenario. Only the Runbook
  of the Billing role knows BILLING_400, with a fix template that names the currency
  field; the Billing and the Ordering role are the domain agents of the billing service,
  which the Ordering role does not own; the Frontend role knows the code-bug pattern of
  BILLING_400.\<close>

definition billing_config :: config where
  "billing_config =
     \<lparr>runbooks = (\<lambda>r.
        \<lparr>runbook_role = r,
         knowledge =
           (if r = Billing then
              [''BILLING_400'' \<mapsto>
                 \<lparr>guidance_text = ''payment request rejected by schema validation'',
                  fix_template = Some ''add the missing currency field to the order request body''\<rparr>]
            else Map.empty),
         escalation_rules = [],
         response_templates = []\<rparr>),
      owns = (\<lambda>r svc. r = Main \<or> r = SRE \<or> (r = Billing \<and> svc = ''billing'') \<or>
                (r = Ordering \<and> svc = ''ordering'') \<or> r = Frontend),
      relevant_agents = (\<lambda>svc. if svc = ''billing'' then [Billing, Ordering] else []),
      code_patterns =
        [''BILLING_400'' \<mapsto>
           \<lparr>location_path = ''checkout.ts: createOrder request body'',
            defect_pattern = ''missing field in request body'',
            patch_template = ''add currency to the request body''\<rparr>],
      implicates_frontend = (\<lambda>a. a = ''add the missing currency field to the order request body''),
      backed_confidence = (\<lambda>r. 9 / 10),
      turn_budget = 8,
      describe_actions = (\<lambda>as. concat (map diff_or_description as))\<rparr>"


section \<open>Properties of the handler and of the clients\<close>

lemma POST_not_json: "body request = None \<Longrightarrow> POST rnd request = Inl SyntaxError"
  by (simp add: POST_def request_json_def)

lemma POST_null: "body request = Some JNull \<Longrightarrow> POST rnd request = Inl TypeError"
  by (simp add: POST_def request_json_def get_prop_def)

lemma Object_keys_total: "v \<noteq> JNull \<Longrightarrow> \<exists>ks. Object_keys v = Inr ks"
  by (cases v) simp_all

lemma falsy_cases:
  "\<not> truthy x \<longleftrightarrow>
     x = None \<or> x = Some JNull \<or> x = Some (JBool False) \<or> x = Some (JNumber (Finite 0)) \<or>
     x = Some (JNumber NaN) \<or> x = Some (JString [])"
  by (cases x rule: truthy.cases) auto

lemma POST_failure:
  assumes "body request = Some v" and "v \<noteq> JNull" and "\<not> truthy (field v ''currency'')"
  shows "\<exists>ks. Object_keys v = Inr ks \<and>
           POST rnd request =
             Inr \<lparr>status = 400,
                  content = Some (JObject
                    [(''error'', JString ''BILLING_400''),
                     (''message'', JString ''Missing required field: currency. Backend validation requires 'currency' field in payment request.''),
                     (''details'', JObject
                       [(''received_fields'', JArray (map JString ks)),
                        (''required_fields'',
                           JArray [JString ''paymentIntentId'', JString ''amount'', JString ''currency'']),
                        (''missing_fields'', JArray [JString ''currency''])])])\<rparr>"
proof -
  from assms(2) obtain ks where ks: "Object_keys v = Inr ks"
    using Object_keys_total by blast
  have "finite_numbers (JArray (map JString ks)) = JArray (map JString ks)"
    by (induction ks) simp_all
  with assms ks show ?thesis
    by (simp add: POST_def request_json_def get_prop_def NextResponse_json_def JSON_stringify_def)
qed

lemma POST_success:
  assumes "body request = Some v" and "truthy (field v ''currency'')"
  shows "POST rnd request =
           Inr \<lparr>status = 200,
                content = Some (JObject
                  [(''success'', JBool True),
                   (''order_id'', JString (''ORD-'' @ toUpperCase (substr rnd 2 9))),
                   (''message'', JString ''Order created successfully'')])\<rparr>"
proof -
  from assms(2) have "v \<noteq> JNull"
    by auto
  with assms show ?thesis
    by (simp add: POST_def request_json_def get_prop_def NextResponse_json_def JSON_stringify_def)
qed

subsection \<open>The shape of the responses\<close>

text \<open>
  C1, the claim as it is worded: every response is a structured failure with the fields
  \<^verbatim>\<open>error_code\<close>, \<^verbatim>\<open>message\<close> and \<^verbatim>\<open>details.missing_fields\<close>, or a success
  with \<^verbatim>\<open>order_id\<close>. The response to the order of the client that sends no currency
  is not of this shape: its error code is under the key \<^verbatim>\<open>error\<close>.
\<close>

theorem POST_shape_counterexample:
  "\<not> described_response
        (POST ''0.4fzyo82mvyr''
           \<lparr>http_method = ''POST'', headers = [(''Content-Type'', ''application/json'')],
            body = Some (JObject [(''paymentIntentId'', JString ''pi_1''),
                                  (''amount'', JNumber (Finite 2499))])\<rparr>)"
  by (simp add: described_response_def described_failure_body_def success_body_def POST_def
      request_json_def get_prop_def NextResponse_json_def JSON_stringify_def)

text \<open>
  C1, amended: for every request whose body is a JSON value other than \<^verbatim>\<open>null\<close>, the
  handler returns a response, and the response is either a failure of status 400 whose
  body has the fields \<^verbatim>\<open>error\<close>, \<^verbatim>\<open>message\<close> and \<^verbatim>\<open>details.missing_fields\<close>
  and no \<^verbatim>\<open>order_id\<close>, or a success of status 200 whose body has \<^verbatim>\<open>order_id\<close>
  and is no failure body; there is no other shape.
\<close>

theorem POST_shape:
  assumes "body request = Some v" and "v \<noteq> JNull"
  shows "\<exists>res b. POST rnd request = Inr res \<and> content res = Some b \<and>
           ((status res = 400 \<and> failure_body b \<and> \<not> success_body b) \<or>
            (status res = 200 \<and> success_body b \<and> \<not> failure_body b))"
proof (cases "truthy (field v ''currency'')")
  case True
  with assms(1) show ?thesis
    by (simp add: POST_success failure_body_def success_body_def)
next
  case False
  with assms obtain ks where "POST rnd request =
      Inr \<lparr>status = 400,
           content = Some (JObject
             [(''error'', JString ''BILLING_400''),
              (''message'', JString ''Missing required field: currency. Backend validation requires 'currency' field in payment request.''),
              (''details'', JObject
                [(''received_fields'', JArray (map JString ks)),
                 (''required_fields'',
                    JArray [JString ''paymentIntentId'', JString ''amount'', JString ''currency'']),
                 (''missing_fields'', JArray [JString ''currency''])])])\<rparr>"
    using POST_failure by blast
  then show ?thesis
    by (simp add: failure_body_def success_body_def)
qed

theorem POST_shape_witness:
  "\<exists>res b. POST ''0.4fzyo82mvyr''
              \<lparr>http_method = ''POST'', headers = [], body = Some (JObject [])\<rparr> = Inr res \<and>
           content res = Some b \<and>
           ((status res = 400 \<and> failure_body b \<and> \<not> success_body b) \<or>
            (status res = 200 \<and> success_body b \<and> \<not> failure_body b))"
  using POST_shape [of "\<lparr>http_method = ''POST'', headers = [], body = Some (JObject [])\<rparr>"
      "JObject []" "''0.4fzyo82mvyr''"]
  by simp

subsection \<open>When the handler fails\<close>

text \<open>
  C2, the claim as it is worded: a body with a \<^verbatim>\<open>currency\<close> field gets a success.
  The order below has the field, with the empty string as its value, and gets the
  failure of status 400.
\<close>

theorem POST_currency_counterexample:
  "field (JObject [(''paymentIntentId'', JString ''pi_1''), (''amount'', JNumber (Finite 2499)),
                   (''currency'', JString [])]) ''currency'' \<noteq> None \<and>
   POST ''0.4fzyo82mvyr''
     \<lparr>http_method = ''POST'', headers = [(''Content-Type'', ''application/json'')],
      body = Some (JObject [(''paymentIntentId'', JString ''pi_1''),
                            (''amount'', JNumber (Finite 2499)),
                            (''currency'', JString [])])\<rparr> =
   Inr \<lparr>status = 400,
        content = Some (JObject
          [(''error'', JString ''BILLING_400''),
           (''message'', JString ''Missing required field: currency. Backend validation requires 'currency' field in payment request.''),
           (''details'', JObject
             [(''received_fields'',
                 JArray [JString ''paymentIntentId'', JString ''amount'', JString ''currency'']),
              (''required_fields'',
                 JArray [JString ''paymentIntentId'', JString ''amount'', JString ''currency'']),
              (''missing_fields'', JArray [JString ''currency''])])])\<rparr>"
  by (simp add: POST_def request_json_def get_prop_def NextResponse_json_def JSON_stringify_def)

text \<open>
  C2, amended: for every request whose body is a JSON value other than \<^verbatim>\<open>null\<close>, the
  handler fails exactly when the \<^verbatim>\<open>currency\<close> of the body is falsy (absent,
  \<^verbatim>\<open>null\<close>, \<^verbatim>\<open>false\<close>, zero, NaN or the empty string, by \<open>falsy_cases\<close>): then it
  returns status 400 with the error code \<^verbatim>\<open>BILLING_400\<close> and the missing fields
  \<^verbatim>\<open>["currency"]\<close>, and no order id; otherwise it returns status 200 with an order id
  and no error code.
\<close>

theorem POST_fails_iff_currency_falsy:
  assumes "body request = Some v" and "v \<noteq> JNull"
  shows "\<exists>res b. POST rnd request = Inr res \<and> content res = Some b \<and>
           (if truthy (field v ''currency'') then
              status res = 200 \<and>
              json_at [''order_id''] b = Some (JString (''ORD-'' @ toUpperCase (substr rnd 2 9))) \<and>
              json_at [''error''] b = None
            else
              status res = 400 \<and>
              json_at [''error''] b = Some (JString ''BILLING_400'') \<and>
              json_at [''details'', ''missing_fields''] b = Some (JArray [JString ''currency'']) \<and>
              json_at [''order_id''] b = None)"
proof (cases "truthy (field v ''currency'')")
  case True
  with assms(1) show ?thesis
    by (simp add: POST_success)
next
  case False
  with assms obtain ks where "POST rnd request =
      Inr \<lparr>status = 400,
           content = Some (JObject
             [(''error'', JString ''BILLING_400''),
              (''message'', JString ''Missing required field: currency. Backend validation requires 'currency' field in payment request.''),
              (''details'', JObject
                [(''received_fields'', JArray (map JString ks)),
                 (''required_fields'',
                    JArray [JString ''paymentIntentId'', JString ''amount'', JString ''currency'']),
                 (''missing_fields'', JArray [JString ''currency''])])])\<rparr>"
    using POST_failure by blast
  with False show ?thesis
    by simp
qed

theorem POST_fails_iff_currency_falsy_witness:
  "\<exists>res b. POST ''0.4fzyo82mvyr''
              \<lparr>http_method = ''POST'', headers = [],
               body = Some (JObject [(''currency'', JNumber (Finite 0))])\<rparr> = Inr res \<and>
           content res = Some b \<and> status res = 400 \<and>
           json_at [''error''] b = Some (JString ''BILLING_400'') \<and>
           json_at [''details'', ''missing_fields''] b = Some (JArray [JString ''currency'']) \<and>
           json_at [''order_id''] b = None"
  using POST_fails_iff_currency_falsy
      [of "\<lparr>http_method = ''POST'', headers = [],
            body = Some (JObject [(''currency'', JNumber (Finite 0))])\<rparr>"
          "JObject [(''currency'', JNumber (Finite 0))]" "''0.4fzyo82mvyr''"]
  by simp

subsection \<open>Failure as a value\<close>

text \<open>
  C3: a request with a JSON body should get its failure as a returned response. The body
  \<^verbatim>\<open>null\<close> is JSON, and the handler throws a TypeError on it, when it reads
  \<^verbatim>\<open>body.currency\<close>.
\<close>

theorem POST_null_body_throws:
  "POST rnd \<lparr>http_method = m, headers = hs, body = Some JNull\<rparr> = Inl TypeError"
  by (simp add: POST_null)

text \<open>
  C8: on a request whose body is not JSON the handler returns no response at all, so no
  structured failure either: it ends with the SyntaxError of \<^verbatim>\<open>request.json()\<close>.
  A response is returned only for a body that is JSON.
\<close>

theorem POST_not_json_throws:
  assumes "body request = None"
  shows "POST rnd request = Inl SyntaxError \<and> (\<forall>res. POST rnd request \<noteq> Inr res)"
  using assms by (simp add: POST_not_json)

theorem POST_not_json_throws_witness:
  "POST ''0.4fzyo82mvyr'' \<lparr>http_method = ''POST'', headers = [], body = None\<rparr> = Inl SyntaxError"
  using POST_not_json_throws [of "\<lparr>http_method = ''POST'', headers = [], body = None\<rparr>" "''0.4fzyo82mvyr''"]
  by simp

subsection \<open>The clients composed with the handler\<close>

text \<open>
  C9: for every payment intent and amount, the order that the client of
  \<^verbatim>\<open>unnamed/part_001\<close> sends has no currency, the handler answers it with the failure
  of status 400 and error code \<^verbatim>\<open>BILLING_400\<close>, and createOrder throws an Error with
  the message of that failure.
\<close>

theorem createOrder_part_001_throws:
  "POST rnd (createOrder_part_001_init paymentIntentId amount) =
     Inr \<lparr>status = 400,
          content = Some (JObject
            [(''error'', JString ''BILLING_400''),
             (''message'', JString ''Missing required field: currency. Backend validation requires 'currency' field in payment request.''),
             (''details'', JObject
               [(''received_fields'', JArray [JString ''paymentIntentId'', JString ''amount'']),
                (''required_fields'',
                   JArray [JString ''paymentIntentId'', JString ''amount'', JString ''currency'']),
                (''missing_fields'', JArray [JString ''currency''])])])\<rparr> \<and>
   createOrder_part_001 (fetch_POST rnd) paymentIntentId amount =
     Inl (Error (JString ''Missing required field: currency. Backend validation requires 'currency' field in payment request.''))"
  by (simp add: createOrder_part_001_def fetch_POST_def POST_def createOrder_part_001_init_def
      JSON_stringify_def request_json_def get_prop_def NextResponse_json_def ok_def
      response_json_def)

theorem createOrder_part_001_throws_witness:
  "createOrder_part_001 (fetch_POST ''0.4fzyo82mvyr'') ''pi_1'' (Finite 2499) =
     Inl (Error (JString ''Missing required field: currency. Backend validation requires 'currency' field in payment request.''))"
  using createOrder_part_001_throws [of "''0.4fzyo82mvyr''" "''pi_1''" "Finite 2499"]
  by simp



section \<open>Properties of the triage core\<close>

subsection \<open>FailureInjector\<close>

lemma triggered_positive:
  assumes "\<forall>n. 0 \<le> src n"
  shows "\<forall>r \<in> set (fst (triggered policy svc src)). 0 < probability r"
  using assms
proof (induction policy arbitrary: src)
  case Nil
  then show ?case by simp
next
  case (Cons a policy)
  have "\<forall>n. 0 \<le> rest src n"
    using Cons.prems by (simp add: rest_def)
  then have ih: "\<forall>r \<in> set (fst (triggered policy svc (rest src))). 0 < probability r"
    by (rule Cons.IH)
  have ih': "\<forall>r \<in> set (fst (triggered policy svc src)). 0 < probability r"
    using Cons.prems by (rule Cons.IH)
  have "0 \<le> src 0"
    using Cons.prems by simp
  then show ?case
    using ih ih' by (auto split: prod.splits)
qed

lemma triggered_certain:
  assumes "\<forall>n. src n < 1" and "r \<in> set policy" and "rule_service r = svc"
    and "probability r = 1"
  shows "r \<in> set (fst (triggered policy svc src))"
  using assms
proof (induction policy arbitrary: src)
  case Nil
  then show ?case by simp
next
  case (Cons a policy)
  have lt: "\<forall>n. rest src n < 1"
    using Cons.prems(1) by (simp add: rest_def)
  have "src 0 < 1"
    using Cons.prems(1) by simp
  show ?case
  proof (cases "r = a")
    case True
    with Cons.prems \<open>src 0 < 1\<close> show ?thesis
      by (simp split: prod.splits)
  next
    case False
    with Cons.prems have "r \<in> set policy"
      by simp
    then have "r \<in> set (fst (triggered policy svc (rest src)))"
      and "r \<in> set (fst (triggered policy svc src))"
      using Cons.IH [OF lt] Cons.IH [OF Cons.prems(1)] Cons.prems(3,4) by simp_all
    then show ?thesis
      by (auto split: prod.splits)
  qed
qed

lemma sample_first:
  assumes "fst (sample policy svc src) = Some r"
  shows "\<exists>before after. policy = before @ r # after \<and> rule_service r = svc \<and>
           fst (triggered before svc src) = [] \<and>
           snd (triggered before svc src) 0 < probability r"
  using assms
proof (induction policy arbitrary: src)
  case Nil
  then show ?case by (simp add: sample_def)
next
  case (Cons a policy)
  show ?case
  proof (cases "rule_service a = svc")
    case False
    with Cons.prems have "fst (sample policy svc src) = Some r"
      by (simp add: sample_def)
    then obtain before after where "policy = before @ r # after" "rule_service r = svc"
      "fst (triggered before svc src) = []" "snd (triggered before svc src) 0 < probability r"
      using Cons.IH by blast
    with False have "a # policy = (a # before) @ r # after \<and> rule_service r = svc \<and>
           fst (triggered (a # before) svc src) = [] \<and>
           snd (triggered (a # before) svc src) 0 < probability r"
      by simp
    then show ?thesis by blast
  next
    case True
    show ?thesis
    proof (cases "src 0 < probability a")
      case hit: True
      with True Cons.prems have "r = a"
        by (auto simp: sample_def split: prod.splits)
      with True hit have "a # policy = [] @ r # policy \<and> rule_service r = svc \<and>
           fst (triggered [] svc src) = [] \<and>
           snd (triggered [] svc src) 0 < probability r"
        by simp
      then show ?thesis by blast
    next
      case miss: False
      with True Cons.prems have "fst (sample policy svc (rest src)) = Some r"
        by (simp add: sample_def split: prod.splits)
      then obtain before after where "policy = before @ r # after" "rule_service r = svc"
        "fst (triggered before svc (rest src)) = []"
        "snd (triggered before svc (rest src)) 0 < probability r"
        using Cons.IH by blast
      with True miss have "a # policy = (a # before) @ r # after \<and> rule_service r = svc \<and>
           fst (triggered (a # before) svc src) = [] \<and>
           snd (triggered (a # before) svc src) 0 < probability r"
        by (simp split: prod.splits)
      then show ?thesis by blast
    qed
  qed
qed

lemma sample_head:
  "fst (sample policy svc src) =
     (case fst (triggered policy svc src) of [] \<Rightarrow> None | r # _ \<Rightarrow> Some r)"
  by (simp add: sample_def split: prod.splits)

text \<open>
  C5: on a call of sample for a service, with a random source of uniform values in
  \<open>[0, 1)\<close>, a rule of probability 0 never triggers and is never returned; a rule of
  that service with probability 1 always triggers, so that sample returns a rule; and
  the rule that sample returns has triggered and no rule before it in the policy has.
\<close>

theorem sample_never_always_first:
  assumes "\<forall>n. 0 \<le> src n \<and> src n < 1"
  shows "(\<forall>r \<in> set policy. probability r = 0 \<longrightarrow>
            r \<notin> set (fst (triggered policy svc src)) \<and> fst (sample policy svc src) \<noteq> Some r) \<and>
         (\<forall>r \<in> set policy. rule_service r = svc \<and> probability r = 1 \<longrightarrow>
            r \<in> set (fst (triggered policy svc src)) \<and> fst (sample policy svc src) \<noteq> None) \<and>
         (\<forall>r. fst (sample policy svc src) = Some r \<longrightarrow>
            r \<in> set (fst (triggered policy svc src)) \<and>
            (\<exists>before after. policy = before @ r # after \<and>
               fst (triggered before svc src) = []))"
proof (intro conjI ballI allI impI)
  fix r
  assume "r \<in> set policy" and zero: "probability r = 0"
  have "\<forall>n. 0 \<le> src n"
    using assms by simp
  then have pos: "\<forall>r \<in> set (fst (triggered policy svc src)). 0 < probability r"
    by (rule triggered_positive)
  with zero show "r \<notin> set (fst (triggered policy svc src))"
    by auto
  with zero pos show "fst (sample policy svc src) \<noteq> Some r"
    by (auto simp: sample_head split: list.splits)
next
  fix r
  assume r: "r \<in> set policy" "rule_service r = svc \<and> probability r = 1"
  moreover have "\<forall>n. src n < 1"
    using assms by simp
  ultimately show "r \<in> set (fst (triggered policy svc src))"
    by (simp add: triggered_certain)
  then show "fst (sample policy svc src) \<noteq> None"
    by (auto simp: sample_head split: list.splits)
next
  fix r
  assume "fst (sample policy svc src) = Some r"
  then show "r \<in> set (fst (triggered policy svc src))"
    by (auto simp: sample_head split: list.splits)
next
  fix r
  assume "fst (sample policy svc src) = Some r"
  then show "\<exists>before after. policy = before @ r # after \<and> fst (triggered before svc src) = []"
    using sample_first by blast
qed

theorem sample_never_always_first_witness:
  "(\<forall>n. (0::rat) \<le> 1 / 2 \<and> (1::rat) / 2 < 1) \<and>
   fst (sample
     [\<lparr>rule_service = ''billing'', rule_kind = ''timeout'', rule_error_code = ''BILLING_504'',
       probability = 0, rule_payload = JNull\<rparr>,
      \<lparr>rule_service = ''billing'', rule_kind = ''schema_mismatch'',
       rule_error_code = ''BILLING_400'', probability = 1, rule_payload = JNull\<rparr>]
     ''billing'' (\<lambda>n. 1 / 2)) \<noteq> None"
  using sample_never_always_first
    [of "\<lambda>n. 1 / 2"
        "[\<lparr>rule_service = ''billing'', rule_kind = ''timeout'', rule_error_code = ''BILLING_504'',
           probability = 0, rule_payload = JNull\<rparr>,
          \<lparr>rule_service = ''billing'', rule_kind = ''schema_mismatch'',
           rule_error_code = ''BILLING_400'', probability = 1, rule_payload = JNull\<rparr>]"
        "''billing''"]
  by simp

subsection \<open>RCA Synthesizer\<close>






subsection \<open>TriageOrchestrator\<close>

lemmas orchestrator_defs = open_triage_def billing_ticket_def billing_config_def advance_def
  terminal_def transition_def publish_def invoke_def analyze_def generic_finding_def
  actionable_def frontend_implicated_def close_def synthesize_def remediated_def
  locate_defect_def generate_patch_def record_action_def enlist_def abort_call_def Let_def

lemma state_publish [simp]: "state (call (publish p s)) = state (call s)"
  by (simp add: publish_def)

lemma state_transition [simp]: "state (call (transition st s)) = st"
  by (simp add: transition_def)

lemma state_invoke [simp]: "state (call (invoke cfg r s)) = state (call s)"
  by (simp add: invoke_def Let_def)

lemma state_invoke_all [simp]: "state (call (invoke_all cfg rs s)) = state (call s)"
  by (induction rs arbitrary: s) simp_all

lemma state_close [simp]: "state (call (close cfg s)) = CLOSED"
  by (simp add: close_def Let_def)

lemma state_abort_call [simp]: "state (call (abort_call s)) = ABORTED"
  by (simp add: abort_call_def Let_def)

lemma state_record_action [simp]: "state (call (record_action a s)) = state (call s)"
  by (simp add: record_action_def)

lemma advance_terminal: "terminal (state (call s)) \<Longrightarrow> advance cfg a s = s"
  by (simp add: advance_def)

lemma advance_abort:
  "\<not> terminal (state (call s)) \<Longrightarrow> state (call (advance cfg True s)) = ABORTED"
  by (simp add: advance_def)

lemma advance_state:
  "state (call (advance cfg False s)) =
     (case state (call s) of
        OPEN \<Rightarrow> ASSESSING
      | ASSESSING \<Rightarrow> DIAGNOSING
      | DIAGNOSING \<Rightarrow> (if actionable (findings (call s)) then REMEDIATING else CLOSED)
      | REMEDIATING \<Rightarrow>
          (if Frontend \<in> set (invoked s) \<and> locate_defect cfg (error_code (ticket s)) \<noteq> None
           then DEPLOYED else CLOSED)
      | DEPLOYED \<Rightarrow> CLOSED
      | CLOSED \<Rightarrow> CLOSED
      | ABORTED \<Rightarrow> ABORTED)"
  by (cases "state (call s)") (auto simp: advance_def terminal_def Let_def split: option.splits)

lemma advance_forward:
  "\<not> terminal (state (call s)) \<Longrightarrow>
     state_rank (state (call s)) < state_rank (state (call (advance cfg a s)))"
proof (cases a)
  case True
  assume "\<not> terminal (state (call s))"
  with True have "state (call (advance cfg a s)) = ABORTED"
    by (simp add: advance_abort)
  moreover from \<open>\<not> terminal (state (call s))\<close> have "state_rank (state (call s)) < 5"
    by (cases "state (call s)") (simp_all add: terminal_def)
  ultimately show ?thesis
    by simp
next
  case False
  assume "\<not> terminal (state (call s))"
  with False show ?thesis
    by (cases "state (call s)") (simp_all add: advance_state terminal_def)
qed

lemma advance_monotonic:
  "state_rank (state (call s)) \<le> state_rank (state (call (advance cfg a s)))"
  using advance_forward [of s cfg a] advance_terminal [of s cfg a]
  by (cases "terminal (state (call s))") simp_all

lemma run_append: "run cfg (xs @ ys) s = run cfg ys (run cfg xs s)"
  by (induction xs arbitrary: s) simp_all

lemma run_terminal: "terminal (state (call s)) \<Longrightarrow> run cfg xs s = s"
  by (induction xs) (simp_all add: advance_terminal)

lemma run_monotonic: "state_rank (state (call s)) \<le> state_rank (state (call (run cfg xs s)))"
proof (induction xs arbitrary: s)
  case Nil
  show ?case by simp
next
  case (Cons a xs)
  have "state_rank (state (call s)) \<le> state_rank (state (call (advance cfg a s)))"
    by (rule advance_monotonic)
  also have "\<dots> \<le> state_rank (state (call (run cfg xs (advance cfg a s))))"
    by (rule Cons.IH)
  finally show ?case by simp
qed

lemma terminal_rank: "terminal st \<longleftrightarrow> state_rank st = 5"
  by (cases st) (simp_all add: terminal_def)

lemma state_rank_le: "state_rank st \<le> 5"
  by (cases st) simp_all

lemma run_progress:
  "min 5 (state_rank (state (call s)) + length xs) \<le> state_rank (state (call (run cfg xs s)))"
proof (induction xs arbitrary: s)
  case Nil
  show ?case by simp
next
  case (Cons a xs)
  show ?case
  proof (cases "terminal (state (call s))")
    case True
    then have "run cfg (a # xs) s = s"
      by (rule run_terminal)
    with True show ?thesis
      by (simp add: terminal_rank)
  next
    case False
    then have "state_rank (state (call s)) < state_rank (state (call (advance cfg a s)))"
      by (rule advance_forward)
    then have "min 5 (state_rank (state (call s)) + length (a # xs)) \<le>
        min 5 (state_rank (state (call (advance cfg a s))) + length xs)"
      by simp
    also have "\<dots> \<le> state_rank (state (call (run cfg xs (advance cfg a s))))"
      by (rule Cons.IH)
    finally show ?thesis
      by simp
  qed
qed

lemma run_reaches_terminal:
  assumes "5 \<le> length xs"
  shows "terminal (state (call (run cfg xs s)))"
proof -
  from assms have "min 5 (state_rank (state (call s)) + length xs) = 5"
    by simp
  with run_progress [of s xs cfg] have "5 \<le> state_rank (state (call (run cfg xs s)))"
    by simp
  with state_rank_le [of "state (call (run cfg xs s))"] show ?thesis
    by (simp add: terminal_rank)
qed

text \<open>
  C4: along every run the rank of the state never decreases, every step from a state that
  is not terminal moves to a state of higher rank in the order OPEN, ASSESSING,
  DIAGNOSING, REMEDIATING, DEPLOYED, CLOSED (ABORTED counts as CLOSED), and once the call
  is CLOSED or ABORTED the rest of the run changes nothing: no agent is invoked and no
  Finding is added.
\<close>

theorem orchestrator_monotonic:
  "state_rank (state (call (run cfg xs s))) \<le> state_rank (state (call (run cfg (xs @ ys) s))) \<and>
   (\<not> terminal (state (call s)) \<longrightarrow>
      state_rank (state (call s)) < state_rank (state (call (advance cfg a s)))) \<and>
   (terminal (state (call (run cfg xs s))) \<longrightarrow>
      run cfg (xs @ ys) s = run cfg xs s \<and>
      invoked (run cfg (xs @ ys) s) = invoked (run cfg xs s) \<and>
      findings (call (run cfg (xs @ ys) s)) = findings (call (run cfg xs s)))"
proof (intro conjI impI)
  have "state_rank (state (call (run cfg xs s))) \<le>
      state_rank (state (call (run cfg ys (run cfg xs s))))"
    by (rule run_monotonic)
  then show "state_rank (state (call (run cfg xs s))) \<le>
      state_rank (state (call (run cfg (xs @ ys) s)))"
    by (simp add: run_append)
next
  assume "\<not> terminal (state (call s))"
  then show "state_rank (state (call s)) < state_rank (state (call (advance cfg a s)))"
    by (rule advance_forward)
next
  assume "terminal (state (call (run cfg xs s)))"
  then have "run cfg ys (run cfg xs s) = run cfg xs s"
    by (rule run_terminal)
  then show "run cfg (xs @ ys) s = run cfg xs s"
    by (simp add: run_append)
next
  assume "terminal (state (call (run cfg xs s)))"
  then have "run cfg ys (run cfg xs s) = run cfg xs s"
    by (rule run_terminal)
  then show "invoked (run cfg (xs @ ys) s) = invoked (run cfg xs s)"
    by (simp add: run_append)
next
  assume "terminal (state (call (run cfg xs s)))"
  then have "run cfg ys (run cfg xs s) = run cfg xs s"
    by (rule run_terminal)
  then show "findings (call (run cfg (xs @ ys) s)) = findings (call (run cfg xs s))"
    by (simp add: run_append)
qed

theorem orchestrator_monotonic_witness:
  "terminal (state (call (run billing_config [False, False, False, False, False]
      (open_triage billing_ticket 0)))) \<and>
   run billing_config ([False, False, False, False, False] @ [False, True])
     (open_triage billing_ticket 0) =
   run billing_config [False, False, False, False, False] (open_triage billing_ticket 0) \<and>
   \<not> terminal (state (call (open_triage billing_ticket 0))) \<and>
   state_rank (state (call (open_triage billing_ticket 0))) <
     state_rank (state (call (advance billing_config False (open_triage billing_ticket 0))))"
proof -
  have "terminal (state (call (run billing_config [False, False, False, False, False]
      (open_triage billing_ticket 0))))"
    by (simp add: orchestrator_defs)
  moreover have "\<not> terminal (state (call (open_triage billing_ticket 0)))"
    by (simp add: open_triage_def terminal_def)
  ultimately show ?thesis
    using orchestrator_monotonic
      [of billing_config "[False, False, False, False, False]" "open_triage billing_ticket 0"
          "[False, True]" False]
    by blast
qed

text \<open>
  C7: an agent that has no knowledge entry for the error code of the Ticket, or does not
  own its service, returns a Finding with confidence 0 and no suggested action; and a
  step without the abort signal never ends in ABORTED: from OPEN it reaches ASSESSING,
  from ASSESSING it reaches DIAGNOSING, and from every state that is not terminal it
  reaches a later state, whatever the Findings are.
\<close>

theorem degraded_finding_and_progress:
  "(knowledge (runbooks cfg r) (error_code t) = None \<or> \<not> owns cfg r (service t) \<longrightarrow>
      confidence (analyze cfg r t fs now) = 0 \<and>
      suggested_action (analyze cfg r t fs now) = None) \<and>
   (state (call s) = OPEN \<longrightarrow> state (call (advance cfg False s)) = ASSESSING) \<and>
   (state (call s) = ASSESSING \<longrightarrow> state (call (advance cfg False s)) = DIAGNOSING) \<and>
   (\<not> terminal (state (call s)) \<longrightarrow>
      state (call (advance cfg False s)) \<noteq> ABORTED \<and>
      state_rank (state (call s)) < state_rank (state (call (advance cfg False s))))"
proof (intro conjI impI)
  assume "knowledge (runbooks cfg r) (error_code t) = None \<or> \<not> owns cfg r (service t)"
  then show "confidence (analyze cfg r t fs now) = 0"
    and "suggested_action (analyze cfg r t fs now) = None"
    by (auto simp: analyze_def generic_finding_def)
next
  assume "state (call s) = OPEN"
  then show "state (call (advance cfg False s)) = ASSESSING"
    by (simp add: advance_state)
next
  assume "state (call s) = ASSESSING"
  then show "state (call (advance cfg False s)) = DIAGNOSING"
    by (simp add: advance_state)
next
  assume "\<not> terminal (state (call s))"
  then show "state (call (advance cfg False s)) \<noteq> ABORTED"
    by (cases "state (call s)") (simp_all add: advance_state terminal_def)
next
  assume "\<not> terminal (state (call s))"
  then show "state_rank (state (call s)) < state_rank (state (call (advance cfg False s)))"
    by (rule advance_forward)
qed

theorem degraded_finding_and_progress_witness:
  "\<not> owns billing_config Ordering (service billing_ticket) \<and>
   confidence (analyze billing_config Ordering billing_ticket [] 0) = 0 \<and>
   suggested_action (analyze billing_config Ordering billing_ticket [] 0) = None \<and>
   state (call (advance billing_config False (open_triage billing_ticket 0))) = ASSESSING"
proof -
  have "\<not> owns billing_config Ordering (service billing_ticket)"
    by (simp add: billing_config_def billing_ticket_def)
  moreover have "state (call (open_triage billing_ticket 0)) = OPEN"
    by (simp add: open_triage_def)
  ultimately show ?thesis
    using degraded_finding_and_progress
      [of billing_config Ordering billing_ticket "[]" 0 "open_triage billing_ticket 0"]
    by blast
qed

end
